theory Spec2Isabelle
  imports Complex_Main "HOL-Library.Multiset"
begin

section \<open>Data model (types.ts)\<close>

text \<open>
  JavaScript numbers are modelled as exact rationals: every number the modelled code
  computes comes from integers by \<open>+\<close>, \<open>-\<close>, \<open>*\<close> and a division by a non-zero
  constant, so no \<open>NaN\<close> or infinity arises. Rounding of IEEE doubles is not modelled.

  The fields \<open>id\<close>, \<open>x\<close> and \<open>y\<close> of \<open>PhotoData\<close> and \<open>x\<close>, \<open>y\<close> of \<open>Coordinates\<close>
  carry a prefix, since a record field is a constant of the theory and \<open>id\<close>, \<open>x\<close>, \<open>y\<close>
  would capture the identity function and the variables of every later statement.
\<close>

datatype FilterType = normal | bw | sepia | warm | cool

record PhotoData =
  photo_id :: string
  url :: string
  timestamp :: nat
  photo_x :: rat
  photo_y :: rat
  rotation :: rat
  isDeveloping :: bool
  caption :: "string option"
  filterType :: FilterType

record Coordinates =
  coord_x :: rat
  coord_y :: rat

section \<open>Development and filter engine (Polaroid.tsx, imageFilterStyle)\<close>

text \<open>
  The \<open>switch\<close> of \<open>imageFilterStyle\<close> overwrites some of six local variables that start
  at \<open>0, 0, 100, 100, 0, 0\<close>; \<open>filterTargets\<close> is that start record and the assignments of
  each branch, in the order of the source.
\<close>

record targets =
  targetGrayscale :: rat
  targetSepia :: rat
  targetContrast :: rat
  targetSaturate :: rat
  targetHue :: rat
  brightnessMod :: rat

definition initialTargets :: targets where
  "initialTargets = \<lparr>targetGrayscale = 0, targetSepia = 0, targetContrast = 100,
     targetSaturate = 100, targetHue = 0, brightnessMod = 0\<rparr>"

fun filterTargets :: "FilterType \<Rightarrow> targets" where
  "filterTargets bw = initialTargets\<lparr>targetGrayscale := 100, targetContrast := 120\<rparr>"
| "filterTargets sepia =
     initialTargets\<lparr>targetSepia := 80, targetContrast := 90, brightnessMod := - 5\<rparr>"
| "filterTargets warm =
     initialTargets\<lparr>targetSepia := 30, targetSaturate := 140, targetContrast := 110,
       targetHue := - 10\<rparr>"
| "filterTargets cool =
     initialTargets\<lparr>targetSaturate := 90, targetContrast := 110, targetHue := 15,
       brightnessMod := 5\<rparr>"
| "filterTargets normal = initialTargets\<lparr>targetContrast := 105\<rparr>"

text \<open>
  The seven numbers that the template string of \<open>imageFilterStyle\<close> interpolates, under
  the names of the source's local variables.
\<close>

record filterStyle =
  baseBlur :: rat
  currentBrightness :: rat
  currentContrast :: rat
  currentGrayscale :: rat
  currentSepia :: rat
  currentSaturate :: rat
  currentHue :: rat

definition imageFilterStyle :: "int \<Rightarrow> FilterType \<Rightarrow> filterStyle" where
  "imageFilterStyle developState ft =
     (let progress = of_int developState / 100;
          baseBlur = max 0 (10 - of_int developState / 10);
          baseBrightness = 50 + of_int developState / 2;
          t = filterTargets ft
      in \<lparr>baseBlur = baseBlur,
          currentBrightness = baseBrightness + progress * brightnessMod t,
          currentContrast = 50 + progress * (targetContrast t - 50),
          currentGrayscale = 100 - progress * (100 - targetGrayscale t),
          currentSepia = progress * targetSepia t,
          currentSaturate = progress * targetSaturate t,
          currentHue = progress * targetHue t\<rparr>)"

subsection \<open>The reference definition of the specification\<close>

text \<open>
  Written from the words of the specification (section 4.3), to be compared with
  \<open>imageFilterStyle\<close>: the table of targets per filter, the filter-independent starting
  values, and the interpolation \<open>start + progress/100 * (target - start)\<close>.
\<close>

datatype channel = Contrast | Grayscale | Sepia | Saturate | HueRotate | BrightnessMod

fun spec_target :: "FilterType \<Rightarrow> channel \<Rightarrow> rat" where
  "spec_target normal Contrast = 105"
| "spec_target normal Grayscale = 0"
| "spec_target normal Sepia = 0"
| "spec_target normal Saturate = 100"
| "spec_target normal HueRotate = 0"
| "spec_target normal BrightnessMod = 0"
| "spec_target bw Contrast = 120"
| "spec_target bw Grayscale = 100"
| "spec_target bw Sepia = 0"
| "spec_target bw Saturate = 100"
| "spec_target bw HueRotate = 0"
| "spec_target bw BrightnessMod = 0"
| "spec_target sepia Contrast = 90"
| "spec_target sepia Grayscale = 0"
| "spec_target sepia Sepia = 80"
| "spec_target sepia Saturate = 100"
| "spec_target sepia HueRotate = 0"
| "spec_target sepia BrightnessMod = - 5"
| "spec_target warm Contrast = 110"
| "spec_target warm Grayscale = 0"
| "spec_target warm Sepia = 30"
| "spec_target warm Saturate = 140"
| "spec_target warm HueRotate = - 10"
| "spec_target warm BrightnessMod = 0"
| "spec_target cool Contrast = 110"
| "spec_target cool Grayscale = 0"
| "spec_target cool Sepia = 0"
| "spec_target cool Saturate = 90"
| "spec_target cool HueRotate = 15"
| "spec_target cool BrightnessMod = 5"

fun spec_start :: "channel \<Rightarrow> rat" where
  "spec_start Grayscale = 100"
| "spec_start Contrast = 50"
| "spec_start _ = 0"

definition spec_interpolate :: "int \<Rightarrow> FilterType \<Rightarrow> channel \<Rightarrow> rat" where
  "spec_interpolate progress ft c =
     spec_start c + of_int progress / 100 * (spec_target ft c - spec_start c)"

definition spec_render :: "int \<Rightarrow> FilterType \<Rightarrow> filterStyle" where
  "spec_render progress ft =
     \<lparr>baseBlur = max 0 (10 - of_int progress / 10),
      currentBrightness =
        50 + of_int progress / 2 + of_int progress / 100 * spec_target ft BrightnessMod,
      currentContrast = 50 + of_int progress / 100 * (spec_target ft Contrast - 50),
      currentGrayscale = spec_interpolate progress ft Grayscale,
      currentSepia = spec_interpolate progress ft Sepia,
      currentSaturate = spec_interpolate progress ft Saturate,
      currentHue = spec_interpolate progress ft HueRotate\<rparr>"

section \<open>Frame capturer (RetroCamera.tsx, handleShoot)\<close>

text \<open>
  \<open>videoWidth\<close> and \<open>videoHeight\<close> of a video element are unsigned integers. The crop is
  the three constants \<open>videoSize\<close>, \<open>startX\<close>, \<open>startY\<close> that \<open>handleShoot\<close> computes
  before drawing.
\<close>

record video =
  videoWidth :: nat
  videoHeight :: nat

record crop =
  videoSize :: rat
  startX :: rat
  startY :: rat

definition cropSquare :: "video \<Rightarrow> crop" where
  "cropSquare v =
     (let videoSize = of_nat (min (videoWidth v) (videoHeight v)) :: rat
      in \<lparr>videoSize = videoSize,
          startX = (of_nat (videoWidth v) - videoSize) / 2,
          startY = (of_nat (videoHeight v) - videoSize) / 2\<rparr>)"

definition outputSize :: nat where
  "outputSize = 500"

section \<open>Camera lifecycle (RetroCamera.tsx)\<close>

text \<open>
  The state of the \<open>RetroCamera\<close> component: \<open>videoRef\<close> is \<open>videoRef.current\<close> (\<open>None\<close>
  while no video element is mounted), \<open>isLoading\<close> and \<open>error\<close> are what \<open>useCamera\<close>
  reports, the other fields are the component's own \<open>useState\<close> cells.
\<close>

record camera =
  videoRef :: "video option"
  isLoading :: bool
  error :: "string option"
  flashActive :: bool
  ejectingPhoto :: "PhotoData option"
  isEjected :: bool
  selectedFilter :: FilterType

text \<open>
  What one run of \<open>handleShoot\<close> reads from the platform: the two results of
  \<open>Date.now()\<close>, the result of \<open>Math.random()\<close>, whether \<open>canvas.getContext('2d')\<close> is
  non-null, and the data URL that drawing the crop of the frame (mirrored, scaled to
  \<open>outputSize\<close>) and \<open>canvas.toDataURL('image/jpeg', 0.85)\<close> produce.
\<close>

record shot =
  now_id :: nat
  now_timestamp :: nat
  mathRandom :: rat
  context2d :: bool
  toDataURL :: "video \<Rightarrow> crop \<Rightarrow> nat \<Rightarrow> string"

text \<open>\<open>Number.prototype.toString\<close> on a non-negative integer: its decimal digits.\<close>

function toString_nat :: "nat \<Rightarrow> string" where
  "toString_nat n =
     (if n < 10 then [''0123456789'' ! n]
      else toString_nat (n div 10) @ [''0123456789'' ! (n mod 10)])"
  by pat_completeness auto
termination
  by (relation "measure (\<lambda>n. n)") auto

declare toString_nat.simps [simp del]

definition newPhoto :: "shot \<Rightarrow> video \<Rightarrow> FilterType \<Rightarrow> PhotoData" where
  "newPhoto e v f =
     \<lparr>photo_id = toString_nat (now_id e),
      url = toDataURL e v (cropSquare v) outputSize,
      timestamp = now_timestamp e,
      photo_x = 0,
      photo_y = 0,
      rotation = mathRandom e * 4 - 2,
      isDeveloping = True,
      caption = None,
      filterType = f\<rparr>"

definition handleShoot :: "shot \<Rightarrow> camera \<Rightarrow> camera" where
  "handleShoot e c =
     (case videoRef c of
        None \<Rightarrow> c
      | Some v \<Rightarrow>
          if isLoading c \<or> ejectingPhoto c \<noteq> None then c
          else
            let c1 = c\<lparr>flashActive := True\<rparr>
            in if context2d e
               then c1\<lparr>ejectingPhoto := Some (newPhoto e v (selectedFilter c)),
                       isEjected := False\<rparr>
               else c1)"

text \<open>The two timers that \<open>handleShoot\<close> starts: flash off after 150 ms, ejected after 1 s.\<close>

definition flashTimeout :: "camera \<Rightarrow> camera" where
  "flashTimeout c = c\<lparr>flashActive := False\<rparr>"

definition ejectTimeout :: "camera \<Rightarrow> camera" where
  "ejectTimeout c = c\<lparr>isEjected := True\<rparr>"

section \<open>Wall (App component)\<close>

record DOMRect =
  rect_left :: rat
  rect_top :: rat
  rect_width :: rat
  rect_height :: rat

text \<open>
  The \<open>useState\<close> cells of \<open>App\<close> that the handlers read and write. The toast
  \<open>notification\<close> is presentation only and is left out.
\<close>

record app =
  photos :: "PhotoData list"
  draggingPhotoId :: "string option"
  dragOffset :: Coordinates
  showInstructions :: bool

definition initialApp :: app where
  "initialApp = \<lparr>photos = [], draggingPhotoId = None,
     dragOffset = \<lparr>coord_x = 0, coord_y = 0\<rparr>, showInstructions = True\<rparr>"

text \<open>
  A pointer event is a mouse event with its \<open>clientX\<close>, \<open>clientY\<close>, or a touch event
  with its list \<open>touches\<close>, which holds at least one touch for \<open>touchstart\<close> and
  \<open>touchmove\<close>, the only touch events whose coordinates the handlers read. The handlers
  read \<open>e.touches[0]\<close>.
\<close>

datatype pointer = MouseEvent rat rat | TouchEvent "rat \<times> rat" "(rat \<times> rat) list"

fun clientX :: "pointer \<Rightarrow> rat" where
  "clientX (TouchEvent t ts) = fst t"
| "clientX (MouseEvent a b) = a"

fun clientY :: "pointer \<Rightarrow> rat" where
  "clientY (TouchEvent t ts) = snd t"
| "clientY (MouseEvent a b) = b"

definition handleTakePaper :: "PhotoData \<Rightarrow> DOMRect \<Rightarrow> app \<Rightarrow> app" where
  "handleTakePaper photo rect s =
     (let newPhoto = photo\<lparr>photo_x := rect_left rect, photo_y := rect_top rect\<rparr>
      in s\<lparr>photos := photos s @ [newPhoto],
           draggingPhotoId := Some (photo_id newPhoto),
           dragOffset := \<lparr>coord_x = rect_width rect / 2, coord_y = rect_height rect / 4\<rparr>,
           showInstructions := False\<rparr>)"

definition handleMouseDown :: "pointer \<Rightarrow> string \<Rightarrow> app \<Rightarrow> app" where
  "handleMouseDown e i s =
     (case find (\<lambda>p. photo_id p = i) (photos s) of
        None \<Rightarrow> s
      | Some photo \<Rightarrow>
          s\<lparr>draggingPhotoId := Some i,
            dragOffset := \<lparr>coord_x = clientX e - photo_x photo,
                            coord_y = clientY e - photo_y photo\<rparr>,
            photos := (let others = filter (\<lambda>p. photo_id p \<noteq> i) (photos s)
                       in others @ [photo])\<rparr>)"

text \<open>\<open>!draggingPhotoId\<close> holds for \<open>null\<close> and for the empty string.\<close>

definition handleMouseMove :: "pointer \<Rightarrow> app \<Rightarrow> app" where
  "handleMouseMove e s =
     (case draggingPhotoId s of
        None \<Rightarrow> s
      | Some d \<Rightarrow>
          if d = [] then s
          else s\<lparr>photos :=
                 map (\<lambda>photo.
                        if photo_id photo = d
                        then photo\<lparr>photo_x := clientX e - coord_x (dragOffset s),
                                   photo_y := clientY e - coord_y (dragOffset s)\<rparr>
                        else photo)
                     (photos s)\<rparr>)"

definition handleMouseUp :: "app \<Rightarrow> app" where
  "handleMouseUp s = s\<lparr>draggingPhotoId := None\<rparr>"

definition handleDeletePhoto :: "string \<Rightarrow> app \<Rightarrow> app" where
  "handleDeletePhoto i s = s\<lparr>photos := filter (\<lambda>p. photo_id p \<noteq> i) (photos s)\<rparr>"

text \<open>
  \<open>handleDragStart\<close> of the camera hands the ejected photo to \<open>handleTakePaper\<close> of the
  wall; its argument is the bounding rectangle of \<open>photoRef.current\<close>, \<open>None\<close> while that
  element is not mounted.
\<close>

definition handleDragStart :: "DOMRect option \<Rightarrow> camera \<times> app \<Rightarrow> camera \<times> app" where
  "handleDragStart photoRef cs =
     (case cs of (c, s) \<Rightarrow>
        if \<not> isEjected c then (c, s)
        else (case ejectingPhoto c of
                None \<Rightarrow> (c, s)
              | Some p \<Rightarrow>
                  (case photoRef of
                     None \<Rightarrow> (c, s)
                   | Some rect \<Rightarrow>
                       (c\<lparr>ejectingPhoto := None, isEjected := False\<rparr>,
                        handleTakePaper p rect s))))"

section \<open>Wall persistence (App load and auto-save effects)\<close>

text \<open>
  Values at run time, where the types of TypeScript are erased: what \<open>JSON.parse\<close> may
  return and what \<open>JSON.stringify\<close> takes. An object is the list of its own properties
  in order.
\<close>

datatype json =
    JNull
  | JBool bool
  | JNum rat
  | JStr string
  | JArr "json list"
  | JObj "(string \<times> json) list"

fun filterName :: "FilterType \<Rightarrow> string" where
  "filterName normal = ''normal''"
| "filterName bw = ''bw''"
| "filterName sepia = ''sepia''"
| "filterName warm = ''warm''"
| "filterName cool = ''cool''"

text \<open>
  The object that a \<open>PhotoData\<close> is at run time: the properties of the object literal of
  \<open>handleShoot\<close> in its order (the spreads of \<open>handleTakePaper\<close> and \<open>handleMouseMove\<close>
  keep the order), and \<open>caption\<close> only when it is set.
\<close>

definition toJS :: "PhotoData \<Rightarrow> json" where
  "toJS p = JObj
     ([(''id'', JStr (photo_id p)),
       (''url'', JStr (url p)),
       (''timestamp'', JNum (of_nat (timestamp p))),
       (''x'', JNum (photo_x p)),
       (''y'', JNum (photo_y p)),
       (''rotation'', JNum (rotation p)),
       (''isDeveloping'', JBool (isDeveloping p)),
       (''filterType'', JStr (filterName (filterType p)))]
      @ (case caption p of None \<Rightarrow> [] | Some c \<Rightarrow> [(''caption'', JStr c)]))"

text \<open>
  The object spread \<open>{...p, isDeveloping: false}\<close>: the own enumerable properties of
  \<open>p\<close> (those of an object; the indices of an array or of a string; none for \<open>null\<close>, a
  boolean or a number), then \<open>isDeveloping\<close> overwritten in place or appended.
\<close>

fun ownProperties :: "json \<Rightarrow> (string \<times> json) list" where
  "ownProperties (JObj kvs) = kvs"
| "ownProperties (JArr xs) = zip (map toString_nat [0..<length xs]) xs"
| "ownProperties (JStr s) = zip (map toString_nat [0..<length s]) (map (\<lambda>c. JStr [c]) s)"
| "ownProperties _ = []"

definition setProperty :: "string \<Rightarrow> json \<Rightarrow> (string \<times> json) list \<Rightarrow> (string \<times> json) list" where
  "setProperty k v kvs =
     (if k \<in> set (map fst kvs)
      then map (\<lambda>kv. if fst kv = k then (k, v) else kv) kvs
      else kvs @ [(k, v)])"

definition getProperty :: "json \<Rightarrow> string \<Rightarrow> json option" where
  "getProperty j k = map_of (ownProperties j) k"

definition spreadDeveloped :: "json \<Rightarrow> json" where
  "spreadDeveloped p = JObj (setProperty ''isDeveloping'' (JBool False) (ownProperties p))"

fun isArray :: "json \<Rightarrow> bool" where
  "isArray (JArr xs) = True"
| "isArray _ = False"

text \<open>
  \<open>localStorage\<close> maps keys to strings. \<open>JSON.parse\<close> and \<open>JSON.stringify\<close> belong to
  the platform and are parameters of the model: \<open>parse s = None\<close> stands for
  \<open>JSON.parse(s)\<close> throwing a \<open>SyntaxError\<close>; \<open>quotaExceeded s\<close> stands for \<open>setItem\<close>
  throwing on the string \<open>s\<close>.
\<close>

type_synonym localStorage = "string \<rightharpoonup> string"

definition STORAGE_KEY :: string where
  "STORAGE_KEY = ''retro-snap-photos''"

datatype js_error = SyntaxError

text \<open>
  The \<open>try\<close> block of the load effect, from the result \<open>saved\<close> of \<open>getItem\<close> on:
  \<open>Inl\<close> is an exception thrown inside the block, \<open>Inr None\<close> is a run that does not call
  \<open>setPhotos\<close>, \<open>Inr (Some ps)\<close> is \<open>setPhotos(ps)\<close>. The empty string is falsy.
\<close>

definition hydrate :: "(string \<Rightarrow> json option) \<Rightarrow> string option \<Rightarrow> js_error + json list option" where
  "hydrate parse saved =
     (case saved of
        None \<Rightarrow> Inr None
      | Some text \<Rightarrow>
          if text = [] then Inr None
          else (case parse text of
                  None \<Rightarrow> Inl SyntaxError
                | Some parsed \<Rightarrow>
                    (case parsed of
                       JArr ps \<Rightarrow> Inr (Some (map spreadDeveloped ps))
                     | _ \<Rightarrow> Inr None)))"

text \<open>
  The load effect with its \<open>catch\<close>: the wall after the effect, which starts as the empty
  list of \<open>useState\<close>.
\<close>

definition loadEffect :: "(string \<Rightarrow> json option) \<Rightarrow> localStorage \<Rightarrow> json list" where
  "loadEffect parse st =
     (case hydrate parse (st STORAGE_KEY) of
        Inl e \<Rightarrow> []
      | Inr None \<Rightarrow> []
      | Inr (Some ps) \<Rightarrow> ps)"

text \<open>The argument of \<open>JSON.stringify\<close> in the auto-save effect: the wall as it is in memory.\<close>

definition snapshot :: "PhotoData list \<Rightarrow> json" where
  "snapshot ps = JArr (map toJS ps)"

definition saveEffect ::
  "(json \<Rightarrow> string) \<Rightarrow> (string \<Rightarrow> bool) \<Rightarrow> PhotoData list \<Rightarrow> localStorage \<Rightarrow> localStorage" where
  "saveEffect stringify quotaExceeded ps st =
     (if length ps > 0
      then (let text = stringify (snapshot ps)
            in if quotaExceeded text then st else st(STORAGE_KEY \<mapsto> text))
      else st)"

text \<open>
  \<open>handleClear\<close>, given the answer of the \<open>confirm\<close> dialog, on the wall and the store.
\<close>

definition handleClear :: "bool \<Rightarrow> app \<times> localStorage \<Rightarrow> app \<times> localStorage" where
  "handleClear confirmed ss =
     (case ss of (s, st) \<Rightarrow>
        if confirmed then (s\<lparr>photos := []\<rparr>, st(STORAGE_KEY := None)) else (s, st))"

section \<open>The platform's JSON.stringify and JSON.parse\<close>

text \<open>
  A model of the two platform functions on the values of type \<open>json\<close>.

  \<open>JSON_stringify\<close> writes a value as \<open>JSON.stringify\<close> does: no white space, the
  members of an object in property order, a string between double quotes with the double
  quote and the backslash escaped by a backslash and a control character written
  \<open>\u00XX\<close>, a number in plain decimal notation with as few fraction digits as it
  has. A rational without a finite decimal expansion, which no IEEE double is, is written
  \<open>null\<close>, as \<open>JSON.stringify\<close> writes a number that is not finite.

  \<open>JSON_parse\<close> reads the JSON grammar without white space, without exponents and with
  \<open>\u\<close> escapes of one byte; it returns \<open>None\<close>, the \<open>SyntaxError\<close>, on any other
  text and on a text with something left after the value. A repeated key of an object
  keeps its first position and takes its last value (\<open>dedupe\<close>). The parser runs on fuel,
  one unit for each value and each list element it descends into; \<open>JSON_parse\<close> gives it
  more than the length of the text.
\<close>

definition dquote :: char where
  "dquote = CHR 0x22"
definition backslash :: char where
  "backslash = CHR 0x5C"

definition isDigit :: "char \<Rightarrow> bool" where
  "isDigit c = (c \<in> set ''0123456789'')"

definition digitValue :: "char \<Rightarrow> nat" where
  "digitValue c = of_char c - 48"












definition hexValue :: "char \<Rightarrow> nat option" where
  "hexValue c =
     (if isDigit c then Some (digitValue c)
      else if c \<in> set ''abcdef'' then Some (of_char c - 87)
      else if c \<in> set ''ABCDEF'' then Some (of_char c - 55)
      else None)"

fun parse_chars :: "string \<Rightarrow> (string \<times> string) option"
  and parse_escape :: "string \<Rightarrow> (string \<times> string) option"
  and parse_u :: "string \<Rightarrow> (string \<times> string) option" where
  "parse_chars [] = None"
| "parse_chars (c # cs) =
     (if c = dquote then Some ([], cs)
      else if c = backslash then parse_escape cs
      else if (of_char c :: nat) < 32 then None
      else map_option (apfst (Cons c)) (parse_chars cs))"
| "parse_escape [] = None"
| "parse_escape (e # cs) =
     (if e = dquote \<or> e = backslash then map_option (apfst (Cons e)) (parse_chars cs)
      else if e = CHR ''u'' then parse_u cs
      else None)"
| "parse_u (h1 # h2 # h3 # h4 # cs) =
     (case (hexValue h1, hexValue h2, hexValue h3, hexValue h4) of
        (Some a, Some b, Some c, Some d) \<Rightarrow>
          (let code = ((a * 16 + b) * 16 + c) * 16 + d
           in if code < 256 then map_option (apfst (Cons (char_of code))) (parse_chars cs)
              else None)
      | _ \<Rightarrow> None)"
| "parse_u _ = None"









text \<open>
  What may follow a value in a JSON text (\<open>valueEnd\<close>), what may follow a number for the
  number scanner to stop there (\<open>numberEnd\<close>), and the characters a value starts with
  (\<open>valueStart\<close>).
\<close>

definition valueEnd :: "string \<Rightarrow> bool" where
  "valueEnd rest = (rest = [] \<or> hd rest \<in> set '',]}'')"





section \<open>The fields that no wall operation may change\<close>

definition immutableFields :: "PhotoData \<Rightarrow> string \<times> string \<times> nat \<times> rat \<times> FilterType" where
  "immutableFields p = (photo_id p, url p, timestamp p, rotation p, filterType p)"

section \<open>Example inputs\<close>

definition exampleVideo :: video where
  "exampleVideo = \<lparr>videoWidth = 1280, videoHeight = 720\<rparr>"

definition exampleShot :: shot where
  "exampleShot = \<lparr>now_id = 1700000000000, now_timestamp = 1700000000001, mathRandom = 1 / 4,
     context2d = True, toDataURL = (\<lambda>v c n. ''data:image/jpeg;base64,AAAA'')\<rparr>"

definition exampleRect :: DOMRect where
  "exampleRect = \<lparr>rect_left = 40, rect_top = 500, rect_width = 170, rect_height = 208\<rparr>"

definition photoA :: PhotoData where
  "photoA = \<lparr>photo_id = ''1'', url = ''data:A'', timestamp = 1, photo_x = 10, photo_y = 20,
     rotation = 1 / 2, isDeveloping = False, caption = None, filterType = normal\<rparr>"

definition photoB :: PhotoData where
  "photoB = \<lparr>photo_id = ''2'', url = ''data:B'', timestamp = 2, photo_x = 30, photo_y = 40,
     rotation = - 1, isDeveloping = True, caption = None, filterType = sepia\<rparr>"

definition photoC :: PhotoData where
  "photoC = \<lparr>photo_id = ''3'', url = ''data:C'', timestamp = 3, photo_x = 50, photo_y = 60,
     rotation = 3 / 2, isDeveloping = False, caption = None, filterType = cool\<rparr>"

definition wallABC :: app where
  "wallABC = initialApp\<lparr>photos := [photoA, photoB, photoC]\<rparr>"

text \<open>
  The camera after \<open>getUserMedia\<close> was refused: \<open>useCamera\<close> has set \<open>error\<close> and cleared
  \<open>isLoading\<close>; the video element is mounted, without a stream, so its size is 0 x 0.
\<close>

definition erroredCamera :: camera where
  "erroredCamera = \<lparr>videoRef = Some \<lparr>videoWidth = 0, videoHeight = 0\<rparr>, isLoading = False,
     error = Some ''Camera access denied or unavailable.'', flashActive = False,
     ejectingPhoto = None, isEjected = False, selectedFilter = normal\<rparr>"

definition idleCamera :: camera where
  "idleCamera = \<lparr>videoRef = Some exampleVideo, isLoading = False, error = None,
     flashActive = False, ejectingPhoto = None, isEjected = False, selectedFilter = normal\<rparr>"

definition ejectingCamera :: camera where
  "ejectingCamera = \<lparr>videoRef = Some exampleVideo, isLoading = False, error = None,
     flashActive = False, ejectingPhoto = Some photoA, isEjected = False,
     selectedFilter = warm\<rparr>"

text \<open>
  A fragment of the platform's \<open>JSON.stringify\<close> and \<open>JSON.parse\<close>, enough for the
  examples: the text of the wall \<open>[photoA, photoB]\<close>, the texts \<open>{}\<close> and \<open>null\<close>, and
  every other text taken as unparseable.
\<close>

definition textAB :: string where
  \<open>textAB = ''[{"id":"1","url":"data:A","timestamp":1,"x":10,"y":20,"rotation":0.5,"isDeveloping":false,"filterType":"normal"},{"id":"2","url":"data:B","timestamp":2,"x":30,"y":40,"rotation":-1,"isDeveloping":true,"filterType":"sepia"}]''\<close>

definition exampleStringify :: "json \<Rightarrow> string" where
  "exampleStringify j = (if j = snapshot [photoA, photoB] then textAB else ''null'')"

definition exampleParse :: "string \<Rightarrow> json option" where
  "exampleParse t =
     (if t = textAB then Some (snapshot [photoA, photoB])
      else if t = ''{}'' then Some (JObj [])
      else if t = ''null'' then Some JNull
      else None)"

section \<open>Verified properties\<close>

lemma filterTargets_table:
  "targetContrast (filterTargets ft) = spec_target ft Contrast"
  "targetGrayscale (filterTargets ft) = spec_target ft Grayscale"
  "targetSepia (filterTargets ft) = spec_target ft Sepia"
  "targetSaturate (filterTargets ft) = spec_target ft Saturate"
  "targetHue (filterTargets ft) = spec_target ft HueRotate"
  "brightnessMod (filterTargets ft) = spec_target ft BrightnessMod"
  by (cases ft; simp add: initialTargets_def)+

text \<open>
  Claim C1. For every filter and every development progress (in particular every integer
  in 0..100) the seven parameters computed by \<open>imageFilterStyle\<close> are those of the
  specification's reference definition: the blur and brightness formulas, the linear
  interpolations from the fixed starting values, and the table of targets per filter.
\<close>

theorem C1_imageFilterStyle_refines_spec:
  "imageFilterStyle progress ft = spec_render progress ft"
  by (simp add: imageFilterStyle_def spec_render_def spec_interpolate_def Let_def
      filterTargets_table right_diff_distrib)

text \<open>
  Claim C7. For a source frame of width \<open>w\<close> and height \<open>h\<close> the crop is the largest
  centred square: its side is \<open>min w h\<close>, its offset is \<open>((w - side)/2, (h - side)/2)\<close>, it
  lies inside the frame with equal margins on both sides, and it spans the frame in one
  direction. A 1280 x 720 frame gives side 720 and offset (280, 0).
\<close>

theorem C7_cropSquare_centered:
  fixes w h :: nat
  defines "c \<equiv> cropSquare \<lparr>videoWidth = w, videoHeight = h\<rparr>"
  shows "videoSize c = of_nat (min w h)
    \<and> startX c = (of_nat w - videoSize c) / 2
    \<and> startY c = (of_nat h - videoSize c) / 2
    \<and> 0 \<le> startX c \<and> 0 \<le> startY c
    \<and> startX c + videoSize c + startX c = of_nat w
    \<and> startY c + videoSize c + startY c = of_nat h
    \<and> (videoSize c = of_nat w \<or> videoSize c = of_nat h)
    \<and> cropSquare \<lparr>videoWidth = 1280, videoHeight = 720\<rparr>
        = \<lparr>videoSize = 720, startX = 280, startY = 0\<rparr>"
  by (auto simp: c_def cropSquare_def Let_def min_def)

subsection \<open>Capture guard\<close>

text \<open>
  Claim C4, the capture guard. A capture request is a silent no-op, leaving the camera state
  unchanged (so the one pending photo stays the pending photo), whenever a photo is
  already in flight, the source is loading, or no video element is mounted. The error
  flag of the camera is not read by \<open>handleShoot\<close>: the same shot on a camera that
  differs only in its error flag gives the same result.
\<close>

theorem C4_capture_rejected_when_busy:
  "(ejectingPhoto c \<noteq> None \<or> isLoading c \<or> videoRef c = None \<longrightarrow> handleShoot e c = c)
   \<and> handleShoot e (c\<lparr>error := x\<rparr>) = (handleShoot e c)\<lparr>error := x\<rparr>"
  by (auto simp: handleShoot_def Let_def split: option.splits)

theorem C4_capture_rejected_when_busy_witness:
  "ejectingPhoto ejectingCamera = Some photoA
   \<and> handleShoot exampleShot ejectingCamera = ejectingCamera
   \<and> ejectingPhoto (handleShoot exampleShot ejectingCamera) = Some photoA"
proof -
  have h: "ejectingPhoto ejectingCamera = Some photoA" by (simp add: ejectingCamera_def)
  then have "handleShoot exampleShot ejectingCamera = ejectingCamera"
    using C4_capture_rejected_when_busy [of ejectingCamera exampleShot None] by simp
  with h show ?thesis by simp
qed

text \<open>
  Claim C4 as stated fails: on a camera that reports an error (not loading, nothing in
  flight) a capture request is not a no-op, it creates a pending photo.
\<close>

theorem C4_errored_camera_still_captures:
  "error erroredCamera \<noteq> None
   \<and> handleShoot exampleShot erroredCamera \<noteq> erroredCamera
   \<and> ejectingPhoto erroredCamera = None
   \<and> ejectingPhoto (handleShoot exampleShot erroredCamera)
       = Some (newPhoto exampleShot \<lparr>videoWidth = 0, videoHeight = 0\<rparr> normal)"
  by (simp add: erroredCamera_def handleShoot_def exampleShot_def Let_def)

subsection \<open>Wall operations\<close>

lemma find_distinct_key:
  "distinct (map f xs) \<Longrightarrow> p \<in> set xs \<Longrightarrow> find (\<lambda>q. f q = f p) xs = Some p"
  by (induction xs) (auto simp: image_iff)

lemma filter_distinct_key:
  "distinct (map f xs) \<Longrightarrow> p \<in> set xs \<Longrightarrow> filter (\<lambda>q. f q \<noteq> f p) xs = remove1 p xs"
proof (induction xs)
  case Nil
  then show ?case by simp
next
  case (Cons a xs)
  from Cons.prems(1) have na: "f a \<notin> f ` set xs" and d: "distinct (map f xs)" by simp_all
  show ?case
  proof (cases "a = p")
    case True
    from na True have "\<forall>q \<in> set xs. f q \<noteq> f p" by (metis imageI)
    then have "filter (\<lambda>q. f q \<noteq> f p) xs = xs" by (simp only: filter_id_conv)
    with True show ?thesis by simp
  next
    case False
    with Cons.prems(2) have m: "p \<in> set xs" by simp
    with na have "f a \<noteq> f p" by (metis imageI)
    with Cons.IH [OF d m] False show ?thesis by simp
  qed
qed

lemma filter_remove1_other:
  "filter (\<lambda>q. q \<noteq> p) (remove1 p xs) = filter (\<lambda>q. q \<noteq> p) xs"
  by (induction xs) auto

lemma toString_nat_nonempty: "toString_nat n \<noteq> []"
  by (subst toString_nat.simps) simp

lemmas example_defs = exampleVideo_def exampleShot_def exampleRect_def photoA_def photoB_def
  photoC_def wallABC_def initialApp_def

text \<open>
  Claim C6. On a wall whose ids are unique (the invariant of the collection), grabbing a
  photo of the wall brings it to the front by remove-then-append: the result is the wall
  without that photo followed by the photo, it holds the same photos, the grabbed photo
  is last, and the other photos keep their relative order. Grabbing B in [A, B, C] gives
  [A, C, B].
\<close>

theorem C6_bring_to_front:
  assumes "distinct (map photo_id (photos s))" and "p \<in> set (photos s)"
  shows "photos (handleMouseDown e (photo_id p) s) = remove1 p (photos s) @ [p]
     \<and> mset (photos (handleMouseDown e (photo_id p) s)) = mset (photos s)
     \<and> last (photos (handleMouseDown e (photo_id p) s)) = p
     \<and> filter (\<lambda>q. q \<noteq> p) (photos (handleMouseDown e (photo_id p) s))
         = filter (\<lambda>q. q \<noteq> p) (photos s)"
proof -
  have r: "photos (handleMouseDown e (photo_id p) s) = remove1 p (photos s) @ [p]"
    using assms by (simp add: handleMouseDown_def find_distinct_key filter_distinct_key)
  show ?thesis using assms(2) by (simp only: r filter_append filter_remove1_other) simp
qed

theorem C6_bring_to_front_witness:
  "distinct (map photo_id (photos wallABC)) \<and> photoB \<in> set (photos wallABC)
   \<and> photos (handleMouseDown (MouseEvent 35 45) ''2'' wallABC) = [photoA, photoC, photoB]"
proof -
  have h1: "distinct (map photo_id (photos wallABC))" by (simp add: example_defs)
  have h2: "photoB \<in> set (photos wallABC)" by (simp add: example_defs)
  have "photos (handleMouseDown (MouseEvent 35 45) (photo_id photoB) wallABC)
          = remove1 photoB (photos wallABC) @ [photoB]"
    using C6_bring_to_front [OF h1 h2] by (rule conjunct1)
  then show ?thesis using h1 h2 by (simp add: example_defs)
qed

text \<open>
  Claim C8. Handing an ejected photo to the wall sets the drag offset to (half the width,
  a quarter of the height) of the photo's rectangle and starts dragging that photo; the
  next pointer move puts the photo at the pointer's viewport point minus that offset.
  The photo's id is not the empty string (the id of a captured photo is the decimal
  text of a time stamp). With a rectangle 170 wide and 208 high, a pointer at (100, 200)
  gives x = 100 - 85 = 15 and y = 200 - 52 = 148.
\<close>

theorem C8_handoff_drag_offset:
  assumes "photo_id photo \<noteq> []"
  shows "dragOffset (handleTakePaper photo rect s)
           = \<lparr>coord_x = rect_width rect / 2, coord_y = rect_height rect / 4\<rparr>
     \<and> draggingPhotoId (handleTakePaper photo rect s) = Some (photo_id photo)
     \<and> last (photos (handleMouseMove e (handleTakePaper photo rect s)))
           = photo\<lparr>photo_x := clientX e - rect_width rect / 2,
                   photo_y := clientY e - rect_height rect / 4\<rparr>"
  using assms by (simp add: handleTakePaper_def handleMouseMove_def Let_def)

text \<open>
  The example runs from the shutter to the wall: capture on an idle camera, the flash and
  eject timers, the grab of the ejected photo, and a pointer move to (100, 200).
\<close>

theorem C8_handoff_drag_offset_witness:
  "photo_id (newPhoto exampleShot exampleVideo normal) \<noteq> []
   \<and> (let shot = handleShoot exampleShot idleCamera;
           ejected = ejectTimeout (flashTimeout shot);
           grabbed = handleDragStart (Some exampleRect) (ejected, initialApp);
           moved = handleMouseMove (MouseEvent 100 200) (snd grabbed)
       in ejectingPhoto (fst grabbed) = None
          \<and> photos moved
              = [(newPhoto exampleShot exampleVideo normal)\<lparr>photo_x := 15, photo_y := 148\<rparr>])"
proof -
  let ?p = "newPhoto exampleShot exampleVideo normal"
  have h: "photo_id ?p \<noteq> []"
    by (simp add: newPhoto_def toString_nat_nonempty)
  have g: "handleDragStart (Some exampleRect)
             (ejectTimeout (flashTimeout (handleShoot exampleShot idleCamera)), initialApp)
           = (idleCamera, handleTakePaper ?p exampleRect initialApp)"
    by (simp add: handleDragStart_def ejectTimeout_def flashTimeout_def handleShoot_def
        idleCamera_def exampleShot_def Let_def)
  have l: "length (photos (handleMouseMove (MouseEvent 100 200)
             (handleTakePaper ?p exampleRect initialApp))) = 1"
    using h by (simp add: handleMouseMove_def handleTakePaper_def initialApp_def Let_def)
  have "last (photos (handleMouseMove (MouseEvent 100 200)
             (handleTakePaper ?p exampleRect initialApp)))
          = ?p\<lparr>photo_x := 15, photo_y := 148\<rparr>"
    using C8_handoff_drag_offset [OF h, of exampleRect initialApp "MouseEvent 100 200"]
    by (simp add: exampleRect_def)
  with l have "photos (handleMouseMove (MouseEvent 100 200)
             (handleTakePaper ?p exampleRect initialApp))
          = [?p\<lparr>photo_x := 15, photo_y := 148\<rparr>]"
    by (cases "photos (handleMouseMove (MouseEvent 100 200)
             (handleTakePaper ?p exampleRect initialApp))") auto
  with h g show ?thesis by (simp add: Let_def idleCamera_def)
qed

text \<open>
  Claim C10. The hand-off from the camera, the drag reposition and the bring-to-front on
  grab preserve id, image payload, time stamp, rotation and filter of every photo: the
  hand-off appends the new photo with these fields as captured, a move leaves the list of
  these fields as it is, and after a grab every photo of the wall is a photo of the wall
  before, the list being that of the other photos followed by the grabbed one.
\<close>

theorem C10_immutable_fields_preserved:
  "map immutableFields (photos (handleTakePaper photo rect s))
     = map immutableFields (photos s) @ [immutableFields photo]
   \<and> map immutableFields (photos (handleMouseMove e s)) = map immutableFields (photos s)
   \<and> set (photos (handleMouseDown e i s)) \<subseteq> set (photos s)
   \<and> map immutableFields (photos (handleMouseDown e i s))
       = (case find (\<lambda>p. photo_id p = i) (photos s) of
            None \<Rightarrow> map immutableFields (photos s)
          | Some photo \<Rightarrow>
              map immutableFields (filter (\<lambda>p. photo_id p \<noteq> i) (photos s))
                @ [immutableFields photo])"
proof -
  have 1: "map immutableFields (photos (handleTakePaper photo rect s))
     = map immutableFields (photos s) @ [immutableFields photo]"
    by (simp add: handleTakePaper_def Let_def immutableFields_def)
  have 2: "map immutableFields (photos (handleMouseMove e s)) = map immutableFields (photos s)"
    by (simp add: handleMouseMove_def immutableFields_def split: option.splits)
  have 3: "set (photos (handleMouseDown e i s)) \<subseteq> set (photos s)"
    by (auto simp: handleMouseDown_def Let_def find_Some_iff split: option.splits)
  have 4: "map immutableFields (photos (handleMouseDown e i s))
       = (case find (\<lambda>p. photo_id p = i) (photos s) of
            None \<Rightarrow> map immutableFields (photos s)
          | Some photo \<Rightarrow>
              map immutableFields (filter (\<lambda>p. photo_id p \<noteq> i) (photos s))
                @ [immutableFields photo])"
    by (simp add: handleMouseDown_def Let_def split: option.splits)
  from 1 2 3 4 show ?thesis by (intro conjI)
qed

subsection \<open>Persistence\<close>

lemma spread_toJS: "spreadDeveloped (toJS p) = toJS (p\<lparr>isDeveloping := False\<rparr>)"
  by (simp add: spreadDeveloped_def toJS_def setProperty_def split: option.splits)

lemma getProperty_toJS_isDeveloping:
  "getProperty (toJS p) ''isDeveloping'' = Some (JBool (isDeveloping p))"
  by (simp add: getProperty_def toJS_def)

lemma map_of_setProperty: "map_of (setProperty k v kvs) k = Some v"
proof (cases "k \<in> set (map fst kvs)")
  case True
  then show ?thesis
    by (induction kvs) (auto simp: setProperty_def)
next
  case False
  then have "map_of kvs k = None" by (simp add: map_of_eq_None_iff)
  with False show ?thesis by (simp add: setProperty_def map_add_def)
qed

lemma getProperty_spreadDeveloped:
  "getProperty (spreadDeveloped j) ''isDeveloping'' = Some (JBool False)"
  by (simp add: getProperty_def spreadDeveloped_def map_of_setProperty)

lemma filterName_inject: "filterName a = filterName b \<longleftrightarrow> a = b"
  by (cases a; cases b; simp)

text \<open>
  Two photos are the same object at run time only if they agree in every field, so an
  equation between lists of \<open>toJS\<close> objects is an equation between the walls.
\<close>

lemma toJS_inject: "toJS p = toJS q \<longleftrightarrow> p = q"
  by (cases p; cases q) (auto simp: toJS_def filterName_inject split: option.splits)

lemma loadEffect_developed:
  "obj \<in> set (loadEffect parse st) \<Longrightarrow> getProperty obj ''isDeveloping'' = Some (JBool False)"
  by (auto simp: loadEffect_def hydrate_def getProperty_spreadDeveloped
      split: option.splits sum.splits json.splits if_splits)

lemma textAB_nonempty: "textAB \<noteq> []"
  by (simp add: textAB_def)

text \<open>
  The sibling path of the single deletion: clearing the wall removes the stored snapshot
  itself, since the auto-save effect does not write an empty wall.
\<close>

lemma handleClear_removes_snapshot:
  "handleClear True (s, st) = (s', st') \<Longrightarrow> photos s' = [] \<and> st' STORAGE_KEY = None"
  by (auto simp: handleClear_def)

text \<open>
  Claim C2, at the input where the code departs from it. On a wall that holds one photo,
  saved, deleting that photo empties the wall; the auto-save effect that follows writes
  nothing, and the store still holds the snapshot with the deleted photo.
\<close>

theorem C2_delete_last_photo_keeps_snapshot:
  "(let s1 = initialApp\<lparr>photos := [p]\<rparr>;
        st1 = saveEffect stringify (\<lambda>t. False) (photos s1) Map.empty;
        s2 = handleDeletePhoto (photo_id p) s1;
        st2 = saveEffect stringify (\<lambda>t. False) (photos s2) st1
    in photos s2 = [] \<and> st2 = st1 \<and> st2 STORAGE_KEY = Some (stringify (snapshot [p])))"
  by (simp add: Let_def saveEffect_def handleDeletePhoto_def initialApp_def)

text \<open>
  Claim C3, where it holds. The auto-save effect writes the wall as it is in memory: the
  text stored is that of \<open>snapshot ps\<close>, in which each photo carries its own
  \<open>isDeveloping\<close> flag. The flag is set to false when a snapshot is loaded: every photo
  that the load effect puts on the wall has \<open>isDeveloping\<close> false.
\<close>

theorem C3_developing_normalised_on_load:
  "(ps \<noteq> [] \<and> \<not> quotaExceeded (stringify (snapshot ps)) \<longrightarrow>
      saveEffect stringify quotaExceeded ps st STORAGE_KEY = Some (stringify (snapshot ps)))
   \<and> snapshot ps = JArr (map toJS ps)
   \<and> (\<forall>p \<in> set ps. getProperty (toJS p) ''isDeveloping'' = Some (JBool (isDeveloping p)))
   \<and> (\<forall>obj \<in> set (loadEffect parse st').
         getProperty obj ''isDeveloping'' = Some (JBool False))"
  by (simp add: saveEffect_def snapshot_def getProperty_toJS_isDeveloping loadEffect_developed)

theorem C3_developing_normalised_on_load_witness:
  "[photoA, photoB] \<noteq> [] \<and> photoB \<in> set [photoA, photoB]
   \<and> saveEffect exampleStringify (\<lambda>t. False) [photoA, photoB] Map.empty STORAGE_KEY
       = Some textAB
   \<and> getProperty (toJS photoB) ''isDeveloping'' = Some (JBool True)
   \<and> toJS (photoB\<lparr>isDeveloping := False\<rparr>)
       \<in> set (loadEffect exampleParse [STORAGE_KEY \<mapsto> textAB])
   \<and> getProperty (toJS (photoB\<lparr>isDeveloping := False\<rparr>)) ''isDeveloping'' = Some (JBool False)"
proof -
  have m: "toJS (photoB\<lparr>isDeveloping := False\<rparr>)
       \<in> set (loadEffect exampleParse [STORAGE_KEY \<mapsto> textAB])"
    by (simp add: loadEffect_def hydrate_def exampleParse_def textAB_nonempty snapshot_def
        spread_toJS)
  have b: "isDeveloping photoB" by (simp add: photoB_def)
  note t = C3_developing_normalised_on_load
    [where ps = "[photoA, photoB]" and parse = exampleParse
       and st' = "[STORAGE_KEY \<mapsto> textAB]" and stringify = exampleStringify
       and quotaExceeded = "\<lambda>t. False" and st = Map.empty]
  from t have w: "saveEffect exampleStringify (\<lambda>t. False) [photoA, photoB] Map.empty STORAGE_KEY
       = Some textAB"
    by (simp add: exampleStringify_def)
  from t have "getProperty (toJS photoB) ''isDeveloping'' = Some (JBool (isDeveloping photoB))"
    by simp
  moreover from t m
  have "getProperty (toJS (photoB\<lparr>isDeveloping := False\<rparr>)) ''isDeveloping'' = Some (JBool False)"
    by blast
  ultimately show ?thesis using m b w by simp
qed

text \<open>
  Claim C3 as stated fails: the snapshot written for the wall \<open>[photoA, photoB]\<close>, in
  which \<open>photoB\<close> is still developing, stores \<open>photoB\<close> with \<open>isDeveloping\<close> true.
\<close>

theorem C3_written_snapshot_keeps_developing_flag:
  "saveEffect exampleStringify (\<lambda>t. False) [photoA, photoB] Map.empty STORAGE_KEY
     = Some (exampleStringify (snapshot [photoA, photoB]))
   \<and> snapshot [photoA, photoB] = JArr [toJS photoA, toJS photoB]
   \<and> getProperty (toJS photoB) ''isDeveloping'' = Some (JBool True)"
  by (simp add: saveEffect_def snapshot_def getProperty_toJS_isDeveloping photoB_def)

subsection \<open>The JSON model reads back what it writes\<close>



lemma parse_chars_cons:
  "parse_chars cs = Some (s, rest) \<Longrightarrow>
     map_option (apfst (Cons c)) (parse_chars cs) = Some (c # s, rest)"
  by simp





















lemma valueEnd_simps [simp]:
  "valueEnd []" "valueEnd (CHR '','' # s)" "valueEnd (CHR '']'' # s)" "valueEnd (CHR ''}'' # s)"
  by (simp_all add: valueEnd_def)





























subsection \<open>Persistence round trip\<close>




text \<open>
  Claim C9. When the store holds nothing under the key, the empty text, a text that
  \<open>JSON.parse\<close> rejects, or a text that parses to anything but an array, the wall after
  the load effect is empty; the \<open>SyntaxError\<close> of an unparseable text arises inside the
  \<open>try\<close> block and is caught there, the effect itself returning a wall in every case.
  A non-empty wall after loading comes from a text that parses to an array.
\<close>

theorem C9_malformed_payload_gives_empty_wall:
  "((st STORAGE_KEY = None \<or> st STORAGE_KEY = Some []
      \<or> (\<exists>text. st STORAGE_KEY = Some text
            \<and> (parse text = None \<or> (\<exists>j. parse text = Some j \<and> \<not> isArray j))))
     \<longrightarrow> loadEffect parse st = [])
   \<and> (\<forall>text. text \<noteq> [] \<and> parse text = None \<longrightarrow> hydrate parse (Some text) = Inl SyntaxError)
   \<and> (loadEffect parse st \<noteq> [] \<longrightarrow>
        (\<exists>text ps. st STORAGE_KEY = Some text \<and> parse text = Some (JArr ps)
           \<and> loadEffect parse st = map spreadDeveloped ps))"
  by (auto simp: loadEffect_def hydrate_def split: option.splits json.splits sum.splits if_splits)

theorem C9_malformed_payload_gives_empty_wall_witness:
  "exampleParse ''{}'' = Some (JObj []) \<and> \<not> isArray (JObj [])
   \<and> loadEffect exampleParse [STORAGE_KEY \<mapsto> ''{}''] = []
   \<and> exampleParse ''][ not json'' = None
   \<and> loadEffect exampleParse [STORAGE_KEY \<mapsto> ''][ not json''] = []
   \<and> hydrate exampleParse (Some ''][ not json'') = Inl SyntaxError"
proof -
  have p1: "exampleParse ''{}'' = Some (JObj [])" by (simp add: exampleParse_def textAB_def)
  have p2: "exampleParse ''][ not json'' = None" by (simp add: exampleParse_def textAB_def)
  have l1: "loadEffect exampleParse [STORAGE_KEY \<mapsto> ''{}''] = []"
    using p1 C9_malformed_payload_gives_empty_wall [of "[STORAGE_KEY \<mapsto> ''{}'']" exampleParse]
    by simp
  have l2: "loadEffect exampleParse [STORAGE_KEY \<mapsto> ''][ not json''] = []"
    using p2
      C9_malformed_payload_gives_empty_wall [of "[STORAGE_KEY \<mapsto> ''][ not json'']" exampleParse]
    by simp
  have l3: "hydrate exampleParse (Some ''][ not json'') = Inl SyntaxError"
    using p2 C9_malformed_payload_gives_empty_wall [of Map.empty exampleParse] by simp
  from p1 p2 l1 l2 l3 show ?thesis by simp
qed

end
